theory Spec2Isabelle
  imports Main "HOL-Library.Word"
begin

section \<open>The fingerprint coordinator of \<^verbatim>\<open>aidl/fingerprint/Fingerprint.cpp\<close>\<close>

text \<open>
  A shallow embedding of the class \<^verbatim>\<open>Fingerprint\<close>: its constructor with the ordered
  search for a HAL module, \<^verbatim>\<open>openHal\<close>, the destructor, the static callback
  \<^verbatim>\<open>notify\<close>, \<^verbatim>\<open>getSensorProps\<close> and \<^verbatim>\<open>createSession\<close>.

  Every method takes the object it runs on (\<open>this\<close>) and returns it updated, together
  with the list of the effects it had on the outside, in program order: the log lines
  and the calls into the vendor library. The static pointer \<^verbatim>\<open>sInstance\<close> and the
  objects it may point to live in a \<open>world\<close>. The return codes, ids and counts of
  the source are only compared with zero, stored and logged, never computed with, so
  they are integers here. The sensor location is different: the build's macros are
  converted to \<^verbatim>\<open>int32_t\<close> before they are tested, so the three coordinates are
  32-bit words read as signed.
\<close>

subsection \<open>The vendor library (libhardware)\<close>

text \<open>
  A \<^verbatim>\<open>fingerprint_device_t\<close>, as far as the coordinator uses it: its identity, what its
  \<^verbatim>\<open>set_notify\<close> answers and what its \<^verbatim>\<open>common.close\<close> answers.
\<close>

record fingerprint_device_t =
  device_id :: nat
  set_notify_status :: int
  close_status :: int

text \<open>
  A \<^verbatim>\<open>hw_module_t\<close>: \<open>methods_open\<close> is \<open>None\<close> when \<^verbatim>\<open>common.methods->open\<close> is a null
  pointer; otherwise it holds what \<^verbatim>\<open>open\<close> returns and the device it wrote through
  its out-parameter. The source reads that device only after a zero return, where
  libhardware guarantees that it is valid.
\<close>

record hw_module_t =
  module_id :: nat
  methods_open :: "(int \<times> fingerprint_device_t) option"

type_synonym UdfpsHandler = nat

record UdfpsHandlerFactory =
  factory_id :: nat
  create_result :: "UdfpsHandler option"

text \<open>
  What the platform answers: \<open>hw_get_module_by_class\<close> is the libhardware function at
  the id \<^verbatim>\<open>FINGERPRINT_HARDWARE_MODULE_ID\<close>, from the class name to its return code and
  the module pointer it wrote; \<open>getUdfpsHandlerFactory\<close> is the factory lookup.
\<close>

record hal =
  hw_get_module_by_class :: "string \<Rightarrow> int \<times> hw_module_t option"
  getUdfpsHandlerFactory :: "UdfpsHandlerFactory option"

text \<open>
  The build configuration: \<open>None\<close> when \<^verbatim>\<open>USES_UDFPS_SENSOR\<close> is not defined, otherwise
  the three macros \<^verbatim>\<open>UDFPS_LOCATION_X\<close>, \<^verbatim>\<open>UDFPS_LOCATION_Y\<close>, \<^verbatim>\<open>UDFPS_RADIUS\<close>: the
  integers the build system passes, of any size.
\<close>

record udfps_config =
  UDFPS_LOCATION_X :: int
  UDFPS_LOCATION_Y :: int
  UDFPS_RADIUS :: int

type_synonym build_config = "udfps_config option"

subsection \<open>The AIDL value types\<close>

datatype FingerprintSensorType =
  UNKNOWN | REAR | UNDER_DISPLAY_ULTRASONIC | UNDER_DISPLAY_OPTICAL | POWER_BUTTON | HOME_BUTTON

datatype SensorStrength = CONVENIENCE | WEAK | STRONG

datatype ScopedAStatus = Status_ok | Status_error int

record ComponentInfo =
  componentId :: string
  hardwareVersion :: string
  firmwareVersion :: string
  serialNumber :: string
  softwareVersion :: string

record CommonProps =
  sensorId :: int
  sensorStrength :: SensorStrength
  maxEnrollmentsPerUser :: int
  componentInfo :: "ComponentInfo list"

record SensorLocation =
  sensorLocationX :: "32 word"
  sensorLocationY :: "32 word"
  sensorRadius :: "32 word"
  display :: string

record SensorProps =
  commonProps :: CommonProps
  sensorType :: FingerprintSensorType
  sensorLocations :: "SensorLocation list"
  supportsNavigationGestures :: bool
  supportsDetectInteraction :: bool
  halHandlesDisplayTouches :: bool
  halControlsIllumination :: bool
  touchDetectionParameters :: "unit option"

subsection \<open>Effects\<close>

datatype log_arg =
  ArgStr string | ArgInt int | ArgSensorType FingerprintSensorType | ArgLocation SensorLocation

datatype event =
    ALOGV string "log_arg list"
  | ALOGD string "log_arg list"
  | ALOGI string "log_arg list"
  | ALOGE string "log_arg list"
  | Call_hw_get_module_by_class string
  | Call_open hw_module_t
  | Call_set_notify fingerprint_device_t
  | Call_close fingerprint_device_t
  | Call_getUdfpsHandlerFactory
  | Call_factory_create UdfpsHandlerFactory
  | Call_factory_destroy "UdfpsHandlerFactory option" UdfpsHandler
  | Call_handler_init UdfpsHandler "fingerprint_device_t option"

text \<open>
  How a call can end other than by returning: the \<^verbatim>\<open>CHECK\<close> macro aborts the process
  with its message, reading through a pointer to a destroyed object has no defined
  behaviour, and the creation of a session can fail, reporting that there is no valid
  device.
\<close>

datatype fault = CheckFailed string | DanglingInstance | NoValidDevice

subsection \<open>The collaborators \<^verbatim>\<open>Session\<close> and \<^verbatim>\<open>LockoutTracker\<close>\<close>

text \<open>
  Three types the coordinator only passes on, declared outside the sources: a
  \<^verbatim>\<open>fingerprint_msg_t\<close> is the content of the message, a callback is known by the remote
  endpoint \<^verbatim>\<open>asBinder\<close> yields, a lockout tracker by its count of failed attempts.
\<close>

type_synonym fingerprint_msg_t = "nat list"

datatype ISessionCallback = ISessionCallback (asBinder: nat)

datatype LockoutTracker = LockoutTracker (failedAttempts: nat)

text \<open>
  Modelled from the spec: the class \<^verbatim>\<open>Session\<close> (\<^verbatim>\<open>Session.h\<close>, \<^verbatim>\<open>Session.cpp\<close>) is not
  among the sources. A session is bound to the device handle, which is not null, the
  optional display handler, the user id, the callback and the lockout tracker; it
  reports whether it is
  closed, it can be linked to the death of the callback's remote side, and it has an
  entry that handles hardware events, here recorded in the order they were delivered.
\<close>

record Session =
  sDevice :: fingerprint_device_t
  sUdfpsHandler :: "UdfpsHandler option"
  sUserId :: int
  sCb :: ISessionCallback
  sLockoutTracker :: LockoutTracker
  sClosed :: bool
  sDeathLink :: "nat option"
  sDelivered :: "fingerprint_msg_t list"

text \<open>
  Modelled from the spec: the constructor of \<^verbatim>\<open>Session\<close>, which is not among the sources.
  The device handle must be non-null before any session can be created: against a null
  device the creation of the session fails and reports that there is no valid device.
  Otherwise the new session is bound to its five arguments, open, not yet linked, with
  no event delivered.
\<close>

definition Session_make ::
  "fingerprint_device_t option \<Rightarrow> UdfpsHandler option \<Rightarrow> int \<Rightarrow> ISessionCallback \<Rightarrow>
   LockoutTracker \<Rightarrow> fault + Session" where
  "Session_make device udfpsHandler userId cb lockoutTracker =
     (case device of
        None \<Rightarrow> Inl NoValidDevice
      | Some d \<Rightarrow>
          Inr \<lparr>sDevice = d, sUdfpsHandler = udfpsHandler, sUserId = userId, sCb = cb,
               sLockoutTracker = lockoutTracker, sClosed = False, sDeathLink = None,
               sDelivered = []\<rparr>)"

text \<open>Modelled from the spec: \<^verbatim>\<open>Session::isClosed\<close>, which is not among the sources.\<close>

definition isClosed :: "Session \<Rightarrow> bool" where
  "isClosed s = sClosed s"

text \<open>Modelled from the spec: \<^verbatim>\<open>Session::linkToDeath\<close>, which is not among the sources.\<close>

definition linkToDeath :: "Session \<Rightarrow> nat \<Rightarrow> Session" where
  "linkToDeath s recipient = s\<lparr>sDeathLink := Some recipient\<rparr>"

text \<open>
  Modelled from the spec: \<^verbatim>\<open>Session::notify\<close>, the session's event-handling entry, which
  is not among the sources.
\<close>

definition Session_notify :: "Session \<Rightarrow> fingerprint_msg_t \<Rightarrow> Session" where
  "Session_notify s msg = s\<lparr>sDelivered := sDelivered s @ [msg]\<rparr>"

text \<open>
  Modelled from the spec: closing a session (\<^verbatim>\<open>Session::close\<close>, not among the sources),
  after which it reports itself closed.
\<close>

definition Session_close :: "Session \<Rightarrow> Session" where
  "Session_close s = s\<lparr>sClosed := True\<rparr>"

subsection \<open>Constants of the translation unit\<close>

definition kModules :: "string list" where
  "kModules = [''fpc'', ''fpc_fod'', ''goodix'', ''goodix_fod'', ''goodix_fod6'', ''silead'', ''syna'']"

definition SENSOR_ID :: int where "SENSOR_ID = 0"
definition SENSOR_STRENGTH :: SensorStrength where "SENSOR_STRENGTH = STRONG"
definition MAX_ENROLLMENTS_PER_USER :: int where "MAX_ENROLLMENTS_PER_USER = 7"
definition SUPPORTS_NAVIGATION_GESTURES :: bool where "SUPPORTS_NAVIGATION_GESTURES = False"
definition HW_COMPONENT_ID :: string where "HW_COMPONENT_ID = ''fingerprintSensor''"
definition HW_VERSION :: string where "HW_VERSION = ''vendor/model/revision''"
definition FW_VERSION :: string where "FW_VERSION = ''1.01''"
definition SERIAL_NUMBER :: string where "SERIAL_NUMBER = ''00000001''"
definition SW_COMPONENT_ID :: string where "SW_COMPONENT_ID = ''matchingAlgorithm''"
definition SW_VERSION :: string where "SW_VERSION = ''vendor/version/revision''"

subsection \<open>The class \<^verbatim>\<open>Fingerprint\<close>\<close>

record Fingerprint =
  mSession :: "Session option"
  mLockoutTracker :: LockoutTracker
  mSensorType :: FingerprintSensorType
  mMaxEnrollmentsPerUser :: int
  mSupportsGestures :: bool
  mDevice :: "fingerprint_device_t option"
  mUdfpsHandlerFactory :: "UdfpsHandlerFactory option"
  mUdfpsHandler :: "UdfpsHandler option"

text \<open>
  The process: the static \<^verbatim>\<open>sInstance\<close> (a null pointer until a constructor runs) and the
  \<^verbatim>\<open>Fingerprint\<close> objects that are alive, by address.
\<close>

type_synonym addr = nat

record world =
  sInstance :: "addr option"
  objects :: "addr \<Rightarrow> Fingerprint option"


subsubsection \<open>\<^verbatim>\<open>Fingerprint::openHal\<close>\<close>

definition openHal :: "hal \<Rightarrow> string \<Rightarrow> fingerprint_device_t option \<times> event list" where
  "openHal h class_name =
     (let t0 = [ALOGD ''Opening fingerprint hal library...'' [],
                Call_hw_get_module_by_class class_name]
      in case hw_get_module_by_class h class_name of
        (rc, hw_mdl) \<Rightarrow>
          if rc \<noteq> 0 then (None, t0 @ [ALOGE ''Can't open fingerprint HW Module'' []])
          else (case hw_mdl of
            None \<Rightarrow> (None, t0 @ [ALOGE ''No valid fingerprint module'' []])
          | Some module \<Rightarrow>
              (case methods_open module of
                None \<Rightarrow> (None, t0 @ [ALOGE ''No valid open method'' []])
              | Some (open_rc, fp_device) \<Rightarrow>
                  if open_rc \<noteq> 0
                  then (None, t0 @ [Call_open module,
                                    ALOGE ''Can't open fingerprint methods'' []])
                  else if set_notify_status fp_device \<noteq> 0
                  then (None, t0 @ [Call_open module, Call_set_notify fp_device,
                                    ALOGE ''Can't register fingerprint module callback'' []])
                  else (Some fp_device,
                        t0 @ [Call_open module, Call_set_notify fp_device]))))"

subsubsection \<open>The constructor\<close>

text \<open>
  The loop over the module table, for any table: \<open>dev\<close> is \<^verbatim>\<open>mDevice\<close> on entry (the
  loop overwrites it in every round it runs).
\<close>

fun openModules ::
  "hal \<Rightarrow> string list \<Rightarrow> fingerprint_device_t option \<Rightarrow> fingerprint_device_t option \<times> event list"
  where
  "openModules h [] dev = (dev, [])"
| "openModules h (class_name # rest) dev =
     (case openHal h class_name of
        (None, t) \<Rightarrow>
          (case openModules h rest None of
             (dev', t') \<Rightarrow>
               (dev', t @ [ALOGE ''Can't open HAL module, class %s'' [ArgStr class_name]] @ t'))
      | (Some d, t) \<Rightarrow>
          (Some d, t @ [ALOGI ''Opened fingerprint HAL, class %s'' [ArgStr class_name]]))"

text \<open>The part of the constructor under \<^verbatim>\<open>#ifdef USES_UDFPS_SENSOR\<close>.\<close>

definition udfps_setup :: "hal \<Rightarrow> Fingerprint \<Rightarrow> Fingerprint \<times> event list" where
  "udfps_setup h this =
     (let t0 = [ALOGI ''UNDER_DISPLAY_OPTICAL selected'' [], Call_getUdfpsHandlerFactory];
          this1 = this\<lparr>mUdfpsHandlerFactory := getUdfpsHandlerFactory h\<rparr>
      in case mUdfpsHandlerFactory this1 of
        None \<Rightarrow> (this1, t0 @ [ALOGE ''Can't get UdfpsHandlerFactory'' []])
      | Some factory \<Rightarrow>
          (let this2 = this1\<lparr>mUdfpsHandler := create_result factory\<rparr>
           in case mUdfpsHandler this2 of
             None \<Rightarrow> (this2, t0 @ [Call_factory_create factory,
                                   ALOGE ''Can't create UdfpsHandler'' []])
           | Some handler \<Rightarrow>
               (this2, t0 @ [Call_factory_create factory,
                             Call_handler_init handler (mDevice this2)])))"

text \<open>The constructor over a given module table; the object it builds and its effects.\<close>

definition Fingerprint_init ::
  "build_config \<Rightarrow> hal \<Rightarrow> string list \<Rightarrow> Fingerprint \<times> event list" where
  "Fingerprint_init cfg h modules =
     (let this0 = \<lparr>mSession = None,
                   mLockoutTracker = LockoutTracker 0,
                   mSensorType = (case cfg of None \<Rightarrow> UNKNOWN | Some u \<Rightarrow> UNDER_DISPLAY_OPTICAL),
                   mMaxEnrollmentsPerUser = MAX_ENROLLMENTS_PER_USER,
                   mSupportsGestures = False,
                   mDevice = None,
                   mUdfpsHandlerFactory = None,
                   mUdfpsHandler = None\<rparr>
      in case openModules h modules (mDevice this0) of
        (dev, t1) \<Rightarrow>
          (let this1 = this0\<lparr>mDevice := dev\<rparr>;
               t2 = (case mDevice this1 of
                       None \<Rightarrow> [ALOGE ''Can't open any HAL module'' []]
                     | Some d \<Rightarrow> [])
           in case cfg of
             None \<Rightarrow> (this1, t1 @ t2)
           | Some u \<Rightarrow> (case udfps_setup h this1 of (this2, t3) \<Rightarrow> (this2, t1 @ t2 @ t3))))"

text \<open>\<^verbatim>\<open>Fingerprint::Fingerprint()\<close>: the table is \<^verbatim>\<open>kModules\<close>.\<close>

definition Fingerprint_ctor :: "build_config \<Rightarrow> hal \<Rightarrow> Fingerprint \<times> event list" where
  "Fingerprint_ctor cfg h = Fingerprint_init cfg h kModules"

text \<open>
  Constructing an object at the address \<open>p\<close>: \<^verbatim>\<open>sInstance = this\<close> is the first statement
  of the constructor's body.
\<close>

definition construct_with ::
  "build_config \<Rightarrow> hal \<Rightarrow> string list \<Rightarrow> addr \<Rightarrow> world \<Rightarrow> world \<times> event list" where
  "construct_with cfg h modules p w =
     (case Fingerprint_init cfg h modules of
        (this, t) \<Rightarrow> (w\<lparr>sInstance := Some p, objects := (objects w)(p := Some this)\<rparr>, t))"

definition construct :: "build_config \<Rightarrow> hal \<Rightarrow> addr \<Rightarrow> world \<Rightarrow> world \<times> event list" where
  "construct cfg h p w = construct_with cfg h kModules p w"

subsubsection \<open>The destructor\<close>

text \<open>
  The body of \<^verbatim>\<open>Fingerprint::~Fingerprint()\<close>. The constructor sets \<^verbatim>\<open>mUdfpsHandler\<close> only
  after it has found the factory, so the factory the handler is destroyed through is
  the one recorded in the event.
\<close>

definition Fingerprint_dtor :: "Fingerprint \<Rightarrow> Fingerprint \<times> event list" where
  "Fingerprint_dtor this =
     (let t0 = [ALOGV ''~Fingerprint()'' []] @
               (case mUdfpsHandler this of
                  None \<Rightarrow> []
                | Some handler \<Rightarrow> [Call_factory_destroy (mUdfpsHandlerFactory this) handler])
      in case mDevice this of
        None \<Rightarrow> (this, t0 @ [ALOGE ''No valid device'' []])
      | Some d \<Rightarrow>
          (let err = close_status d
           in if 0 \<noteq> err
              then (this, t0 @ [Call_close d,
                                ALOGE ''Can't close fingerprint module, error: %d'' [ArgInt err]])
              else (this\<lparr>mDevice := None\<rparr>, t0 @ [Call_close d])))"

text \<open>
  Destroying the object at \<open>p\<close>: the body runs, then the object's lifetime ends. The
  body does not mention \<^verbatim>\<open>sInstance\<close>. Destroying what is not alive is \<open>None\<close>.
\<close>

definition destroy :: "addr \<Rightarrow> world \<Rightarrow> (world \<times> event list) option" where
  "destroy p w =
     (case objects w p of
        None \<Rightarrow> None
      | Some this \<Rightarrow>
          (case Fingerprint_dtor this of
             (this', t) \<Rightarrow> Some (w\<lparr>objects := (objects w)(p := None)\<rparr>, t)))"

subsubsection \<open>\<^verbatim>\<open>Fingerprint::notify\<close>\<close>

definition notify :: "world \<Rightarrow> fingerprint_msg_t \<Rightarrow> fault + world \<times> event list" where
  "notify w msg =
     (let dropped = Inr (w, [ALOGE ''Receiving callbacks before a session is opened.'' []])
      in case sInstance w of
        None \<Rightarrow> dropped
      | Some thisPtr \<Rightarrow>
          (case objects w thisPtr of
             None \<Rightarrow> Inl DanglingInstance
           | Some this \<Rightarrow>
               (case mSession this of
                  None \<Rightarrow> dropped
                | Some s \<Rightarrow>
                    if isClosed s then dropped
                    else Inr (w\<lparr>objects := (objects w)
                                 (thisPtr := Some (this\<lparr>mSession := Some (Session_notify s msg)\<rparr>))\<rparr>,
                              []))))"

subsubsection \<open>\<^verbatim>\<open>Fingerprint::getSensorProps\<close>\<close>

text \<open>
  The conversion that \<^verbatim>\<open>int32_t x = UDFPS_LOCATION_X\<close> makes of the macro's value: it is
  reduced modulo \<open>2 ^ 32\<close>.
\<close>

definition to_int32 :: "int \<Rightarrow> 32 word" where
  "to_int32 v = word_of_int v"

text \<open>
  \<open>init\<close> is the default-constructed \<^verbatim>\<open>SensorLocation\<close> of the AIDL-generated header,
  which is not among the sources. The result is the object after the call, the status,
  what was written to \<^verbatim>\<open>*out\<close>, and the effects. The comparisons \<^verbatim>\<open>x >= 0\<close> are signed.
\<close>

definition getSensorProps ::
  "build_config \<Rightarrow> SensorLocation \<Rightarrow> Fingerprint \<Rightarrow>
   Fingerprint \<times> ScopedAStatus \<times> SensorProps list \<times> event list" where
  "getSensorProps cfg init this =
     (let componentInfo =
            [\<lparr>componentId = HW_COMPONENT_ID, hardwareVersion = HW_VERSION,
              firmwareVersion = FW_VERSION, serialNumber = SERIAL_NUMBER,
              softwareVersion = ''''\<rparr>,
             \<lparr>componentId = SW_COMPONENT_ID, hardwareVersion = '''',
              firmwareVersion = '''', serialNumber = '''',
              softwareVersion = SW_VERSION\<rparr>];
          commonProps =
            \<lparr>sensorId = SENSOR_ID, sensorStrength = SENSOR_STRENGTH,
             maxEnrollmentsPerUser = mMaxEnrollmentsPerUser this,
             componentInfo = componentInfo\<rparr>;
          x = (case cfg of None \<Rightarrow> - 1 | Some u \<Rightarrow> to_int32 (UDFPS_LOCATION_X u));
          y = (case cfg of None \<Rightarrow> - 1 | Some u \<Rightarrow> to_int32 (UDFPS_LOCATION_Y u));
          r = (case cfg of None \<Rightarrow> - 1 | Some u \<Rightarrow> to_int32 (UDFPS_RADIUS u));
          located = (sint x \<ge> 0 \<and> sint y \<ge> 0 \<and> sint r \<ge> 0);
          sensorLocation =
            (if located
             then init\<lparr>sensorLocationX := x, sensorLocationY := y, sensorRadius := r\<rparr>
             else init);
          t1 = (if located then []
                else [ALOGE ''Failed to get sensor location: %d, %d, %d''
                        [ArgInt (sint x), ArgInt (sint y), ArgInt (sint r)]]);
          t2 = [ALOGI ''Sensor type: %s, location: %s''
                  [ArgSensorType (mSensorType this), ArgLocation sensorLocation]]
      in (this, Status_ok,
          [\<lparr>commonProps = commonProps,
            sensorType = mSensorType this,
            sensorLocations = [sensorLocation],
            supportsNavigationGestures = mSupportsGestures this,
            supportsDetectInteraction = False,
            halHandlesDisplayTouches = False,
            halControlsIllumination = False,
            touchDetectionParameters = None\<rparr>],
          t1 @ t2))"

subsubsection \<open>\<^verbatim>\<open>Fingerprint::createSession\<close>\<close>

text \<open>
  The result is the object as the call leaves it and either the fault that ended the
  call or the status with what was written to \<^verbatim>\<open>*out\<close>. The source does not test
  \<^verbatim>\<open>mDevice\<close>: it hands it to the constructor of \<^verbatim>\<open>Session\<close>, and when that fails nothing
  has been assigned yet. \<^verbatim>\<open>*out\<close> and \<^verbatim>\<open>mSession\<close> share one session object, so both show
  it with the death link attached. The callback is a non-null reference, as the IPC
  layer delivers it.
\<close>

definition createSession ::
  "Fingerprint \<Rightarrow> int \<Rightarrow> int \<Rightarrow> ISessionCallback \<Rightarrow>
   Fingerprint \<times> (fault + ScopedAStatus \<times> Session)" where
  "createSession this sensor_id userId cb =
     (if (case mSession this of None \<Rightarrow> True | Some s \<Rightarrow> isClosed s)
      then (case Session_make (mDevice this) (mUdfpsHandler this) userId cb
                   (mLockoutTracker this) of
              Inl e \<Rightarrow> (this, Inl e)
            | Inr s0 \<Rightarrow>
                (let s1 = linkToDeath s0 (asBinder cb)
                 in (this\<lparr>mSession := Some s1\<rparr>, Inr (Status_ok, s1))))
      else (this, Inl (CheckFailed ''Open session already exists!'')))"

subsection \<open>Reading the effects\<close>

text \<open>The class names \<^verbatim>\<open>hw_get_module_by_class\<close> was called with, in order.\<close>

definition attempted :: "event list \<Rightarrow> string list" where
  "attempted t =
     concat (map (\<lambda>e. case e of Call_hw_get_module_by_class c \<Rightarrow> [c] | _ \<Rightarrow> []) t)"

text \<open>The devices \<^verbatim>\<open>common.close\<close> was called on, in order.\<close>

definition closed_devices :: "event list \<Rightarrow> fingerprint_device_t list" where
  "closed_devices t = concat (map (\<lambda>e. case e of Call_close d \<Rightarrow> [d] | _ \<Rightarrow> []) t)"

subsection \<open>The specification's view of one candidate\<close>

text \<open>
  The three steps of an attempt in the specification's words: the backend is resolved
  (the lookup answers zero and yields a module), opened (the module has an open method
  and it answers zero), and the notification callback is registered (\<^verbatim>\<open>set_notify\<close>
  answers zero). \<open>registered\<close> is the handle of a candidate for which all three succeed.
\<close>

definition resolved :: "hal \<Rightarrow> string \<Rightarrow> hw_module_t option" where
  "resolved h c = (case hw_get_module_by_class h c of (rc, m) \<Rightarrow> if rc = 0 then m else None)"

definition opened :: "hal \<Rightarrow> string \<Rightarrow> fingerprint_device_t option" where
  "opened h c =
     (case resolved h c of
        None \<Rightarrow> None
      | Some m \<Rightarrow>
          (case methods_open m of
             None \<Rightarrow> None
           | Some (rc, d) \<Rightarrow> if rc = 0 then Some d else None))"

definition registered :: "hal \<Rightarrow> string \<Rightarrow> fingerprint_device_t option" where
  "registered h c =
     (case opened h c of
        None \<Rightarrow> None
      | Some d \<Rightarrow> if set_notify_status d = 0 then Some d else None)"

subsection \<open>Concrete platforms and objects\<close>

definition goodix_device :: fingerprint_device_t where
  "goodix_device = \<lparr>device_id = 3, set_notify_status = 0, close_status = 0\<rparr>"

definition stubborn_device :: fingerprint_device_t where
  "stubborn_device = \<lparr>device_id = 9, set_notify_status = 0, close_status = - 22\<rparr>"

definition deaf_device :: fingerprint_device_t where
  "deaf_device = \<lparr>device_id = 4, set_notify_status = - 1, close_status = 0\<rparr>"

text \<open>
  A platform where \<^verbatim>\<open>fpc\<close> does not resolve, \<^verbatim>\<open>fpc_fod\<close> resolves but fails to open,
  \<^verbatim>\<open>goodix\<close> opens and registers, \<^verbatim>\<open>goodix_fod\<close> would open but refuses the callback,
  \<^verbatim>\<open>silead\<close> would open and register too, and nothing else resolves.
\<close>

definition goodix_hal :: hal where
  "goodix_hal =
     \<lparr>hw_get_module_by_class = (\<lambda>c.
         if c = ''fpc_fod''
         then (0, Some \<lparr>module_id = 2, methods_open = Some (- 1, deaf_device)\<rparr>)
         else if c = ''goodix''
         then (0, Some \<lparr>module_id = 3, methods_open = Some (0, goodix_device)\<rparr>)
         else if c = ''goodix_fod''
         then (0, Some \<lparr>module_id = 4, methods_open = Some (0, deaf_device)\<rparr>)
         else if c = ''silead''
         then (0, Some \<lparr>module_id = 6, methods_open = Some (0, stubborn_device)\<rparr>)
         else (- 2, None)),
       getUdfpsHandlerFactory = None\<rparr>"

text \<open>A platform with no fingerprint module at all.\<close>

definition empty_hal :: hal where
  "empty_hal = \<lparr>hw_get_module_by_class = (\<lambda>c. (- 2, None)), getUdfpsHandlerFactory = None\<rparr>"

text \<open>A platform whose only module, \<^verbatim>\<open>silead\<close>, opens a device that refuses to close.\<close>

definition stubborn_hal :: hal where
  "stubborn_hal =
     \<lparr>hw_get_module_by_class = (\<lambda>c.
         if c = ''silead''
         then (0, Some \<lparr>module_id = 6, methods_open = Some (0, stubborn_device)\<rparr>)
         else (- 2, None)),
       getUdfpsHandlerFactory = None\<rparr>"

definition zero_location :: SensorLocation where
  "zero_location = \<lparr>sensorLocationX = 0, sensorLocationY = 0, sensorRadius = 0, display = []\<rparr>"

definition no_radius_config :: build_config where
  "no_radius_config = Some \<lparr>UDFPS_LOCATION_X = 540, UDFPS_LOCATION_Y = 1800, UDFPS_RADIUS = - 1\<rparr>"

definition full_config :: build_config where
  "full_config = Some \<lparr>UDFPS_LOCATION_X = 540, UDFPS_LOCATION_Y = 1800, UDFPS_RADIUS = 90\<rparr>"

definition client :: ISessionCallback where
  "client = ISessionCallback 7"

definition other_client :: ISessionCallback where
  "other_client = ISessionCallback 8"

text \<open>
  Coordinators built by the constructor on these platforms, and the first one with a
  session open for \<open>client\<close>, and with that session closed.
\<close>

definition idle_coordinator :: Fingerprint where
  "idle_coordinator = fst (Fingerprint_ctor None goodix_hal)"

definition first_session :: Session where
  "first_session =
     \<lparr>sDevice = goodix_device, sUdfpsHandler = None, sUserId = 10, sCb = client,
      sLockoutTracker = LockoutTracker 0, sClosed = False, sDeathLink = Some 7,
      sDelivered = []\<rparr>"

definition busy_coordinator :: Fingerprint where
  "busy_coordinator = idle_coordinator\<lparr>mSession := Some first_session\<rparr>"

definition closed_coordinator :: Fingerprint where
  "closed_coordinator = idle_coordinator\<lparr>mSession := Some (Session_close first_session)\<rparr>"

definition stubborn_coordinator :: Fingerprint where
  "stubborn_coordinator = fst (Fingerprint_ctor None stubborn_hal)"

definition deviceless_coordinator :: Fingerprint where
  "deviceless_coordinator = fst (Fingerprint_ctor None empty_hal)"

text \<open>
  A platform without any module whose display-handler factory works, and the
  coordinator of an under-display build on it: it has a handler and no device.
\<close>

definition handler_factory :: UdfpsHandlerFactory where
  "handler_factory = \<lparr>factory_id = 1, create_result = Some 5\<rparr>"

definition handler_only_hal :: hal where
  "handler_only_hal =
     \<lparr>hw_get_module_by_class = (\<lambda>c. (- 2, None)),
      getUdfpsHandlerFactory = Some handler_factory\<rparr>"

definition handler_only_coordinator :: Fingerprint where
  "handler_only_coordinator = fst (Fingerprint_ctor full_config handler_only_hal)"

text \<open>The coordinators of the two under-display builds on the platform \<open>goodix_hal\<close>.\<close>

definition full_coordinator :: Fingerprint where
  "full_coordinator = fst (Fingerprint_ctor full_config goodix_hal)"

definition no_radius_coordinator :: Fingerprint where
  "no_radius_coordinator = fst (Fingerprint_ctor no_radius_config goodix_hal)"

text \<open>A build whose x coordinate does not fit \<^verbatim>\<open>int32_t\<close>, and its coordinator.\<close>

definition wide_config :: build_config where
  "wide_config =
     Some \<lparr>UDFPS_LOCATION_X = 2147483648, UDFPS_LOCATION_Y = 1800, UDFPS_RADIUS = 90\<rparr>"

definition wide_coordinator :: Fingerprint where
  "wide_coordinator = fst (Fingerprint_ctor wide_config goodix_hal)"

text \<open>A process with one coordinator at address 1, in each of the three states.\<close>

definition world_with :: "Fingerprint \<Rightarrow> world" where
  "world_with this = \<lparr>sInstance = Some 1, objects = (\<lambda>p. None)(1 := Some this)\<rparr>"

text \<open>
  The process after its only coordinator, constructed at address 1, has been destroyed.
\<close>

definition stale_world :: world where
  "stale_world = \<lparr>sInstance = Some 1, objects = (\<lambda>p. None)\<rparr>"

section \<open>Properties\<close>

subsection \<open>Backend discovery\<close>

text \<open>
  \<^verbatim>\<open>openHal\<close> yields a device exactly for a candidate that resolves, opens and accepts
  the callback, and every call of it asks libhardware for the class once.
\<close>

lemma openHal_registered: "fst (openHal h c) = registered h c"
  by (simp add: openHal_def registered_def opened_def resolved_def Let_def
      split: prod.splits option.splits)

lemma attempted_append: "attempted (s @ t) = attempted s @ attempted t"
  by (simp add: attempted_def)

lemma attempted_openHal: "attempted (snd (openHal h c)) = [c]"
  by (simp add: openHal_def attempted_def Let_def split: prod.splits option.splits)

lemma openModules_skips_failures:
  assumes "\<forall>c\<in>set pre. registered h c = None" and "registered h b = Some d"
  shows "openModules h (pre @ b # post) dev =
           (Some d, snd (openModules h (pre @ [b]) dev)) \<and>
         attempted (snd (openModules h (pre @ [b]) dev)) = pre @ [b]"
  using assms
proof (induction pre arbitrary: dev)
  case Nil
  have "fst (openHal h b) = Some d" using Nil by (simp add: openHal_registered)
  moreover have "attempted (snd (openHal h b)) = [b]" by (rule attempted_openHal)
  ultimately show ?case
    by (auto simp: attempted_append attempted_def split: prod.splits option.splits)
next
  case (Cons a pre)
  have "fst (openHal h a) = None" using Cons.prems by (simp add: openHal_registered)
  moreover have "attempted (snd (openHal h a)) = [a]" by (rule attempted_openHal)
  moreover note Cons.IH [of None] Cons.prems
  ultimately show ?case
    by (auto simp: attempted_append attempted_def split: prod.splits option.splits)
qed

lemma udfps_setup_keeps:
  assumes "udfps_setup h this = (this', t)"
  shows "mDevice this' = mDevice this" and "mSession this' = mSession this"
    and "attempted t = []"
  using assms
  by (auto simp: udfps_setup_def attempted_def Let_def split: option.splits)

lemma mDevice_Fingerprint_init:
  "mDevice (fst (Fingerprint_init cfg h ms)) = fst (openModules h ms None)"
  by (auto simp: Fingerprint_init_def Let_def split: prod.splits option.splits
      dest!: udfps_setup_keeps(1))

lemma attempted_Fingerprint_init:
  "attempted (snd (Fingerprint_init cfg h ms)) = attempted (snd (openModules h ms None))"
  by (auto simp: Fingerprint_init_def Let_def attempted_append
      split: prod.splits option.splits dest!: udfps_setup_keeps(3))
    (simp_all add: attempted_def)

text \<open>
  Claim C2. For every module table \<open>pre @ b # post\<close> in which every candidate of \<open>pre\<close>
  fails (at resolution, at open or at the registration of the callback) and \<open>b\<close>
  resolves, opens and registers with the handle \<open>d\<close>, the constructor ends with
  \<^verbatim>\<open>mDevice\<close> equal to \<open>d\<close>, and the classes it asked libhardware for are exactly
  \<open>pre\<close> followed by \<open>b\<close>: each failure moved on to the next candidate, and no candidate
  of \<open>post\<close> was attempted.
\<close>

theorem discovery_returns_first_success:
  assumes "\<forall>c\<in>set pre. registered h c = None" and "registered h b = Some d"
  shows "mDevice (fst (Fingerprint_init cfg h (pre @ b # post))) = Some d \<and>
         attempted (snd (Fingerprint_init cfg h (pre @ b # post))) = pre @ [b]"
  using openModules_skips_failures [OF assms, of post None]
  by (simp add: mDevice_Fingerprint_init attempted_Fingerprint_init)


text \<open>
  On the platform \<open>goodix_hal\<close> with the table \<^verbatim>\<open>kModules\<close>: \<^verbatim>\<open>fpc\<close> and \<^verbatim>\<open>fpc_fod\<close>
  fail, \<^verbatim>\<open>goodix\<close> is opened, and \<^verbatim>\<open>silead\<close>, which would open too, is never asked for.
\<close>

theorem discovery_returns_first_success_witness:
  "map (registered goodix_hal) kModules =
     [None, None, Some goodix_device, None, None, Some stubborn_device, None] \<and>
   mDevice (fst (Fingerprint_ctor None goodix_hal)) = Some goodix_device \<and>
   attempted (snd (Fingerprint_ctor None goodix_hal)) = [''fpc'', ''fpc_fod'', ''goodix'']"
proof -
  have a: "\<forall>c\<in>set [''fpc'', ''fpc_fod'']. registered goodix_hal c = None"
    by (simp add: registered_def opened_def resolved_def goodix_hal_def deaf_device_def)
  have b: "registered goodix_hal ''goodix'' = Some goodix_device"
    by (simp add: registered_def opened_def resolved_def goodix_hal_def goodix_device_def)
  have c: "map (registered goodix_hal) kModules =
     [None, None, Some goodix_device, None, None, Some stubborn_device, None]"
    by (simp add: kModules_def registered_def opened_def resolved_def goodix_hal_def
        goodix_device_def deaf_device_def stubborn_device_def)
  show ?thesis
    using c discovery_returns_first_success
      [OF a b, of None "[''goodix_fod'', ''goodix_fod6'', ''silead'', ''syna'']"]
    by (simp add: Fingerprint_ctor_def kModules_def)
qed

subsection \<open>No backend at all\<close>

lemma openModules_all_fail:
  assumes "\<forall>c\<in>set ms. registered h c = None"
  shows "fst (openModules h ms None) = None \<and> attempted (snd (openModules h ms None)) = ms"
  using assms
proof (induction ms)
  case Nil
  show ?case by (simp add: attempted_def)
next
  case (Cons a ms)
  have "fst (openHal h a) = None" using Cons.prems by (simp add: openHal_registered)
  moreover have "attempted (snd (openHal h a)) = [a]" by (rule attempted_openHal)
  moreover note Cons.IH Cons.prems
  ultimately show ?case
    by (auto simp: attempted_append attempted_def split: prod.splits option.splits)
qed

lemma Fingerprint_init_fresh:
  "mSession (fst (Fingerprint_init cfg h ms)) = None \<and>
   mLockoutTracker (fst (Fingerprint_init cfg h ms)) = LockoutTracker 0"
  by (auto simp: Fingerprint_init_def udfps_setup_def Let_def split: prod.splits option.splits)

lemma Fingerprint_init_logs_no_module:
  "mDevice (fst (Fingerprint_init cfg h ms)) = None \<Longrightarrow>
   ALOGE ''Can't open any HAL module'' [] \<in> set (snd (Fingerprint_init cfg h ms))"
  by (auto simp: Fingerprint_init_def Let_def split: prod.splits option.splits
      dest!: udfps_setup_keeps(1))

text \<open>
  Claim C4. When every candidate of the module table fails, all of them are attempted,
  the failure is logged and \<^verbatim>\<open>mDevice\<close> stays null. A call of \<^verbatim>\<open>createSession\<close> on that
  object then fails, reporting that there is no valid device: it stores no session
  and leaves the object as it was.
\<close>

theorem createSession_without_device:
  assumes "\<forall>c\<in>set ms. registered h c = None"
  shows "mDevice (fst (Fingerprint_init cfg h ms)) = None \<and>
         attempted (snd (Fingerprint_init cfg h ms)) = ms \<and>
         ALOGE ''Can't open any HAL module'' [] \<in> set (snd (Fingerprint_init cfg h ms)) \<and>
         createSession (fst (Fingerprint_init cfg h ms)) sensor_id userId cb =
           (fst (Fingerprint_init cfg h ms), Inl NoValidDevice)"
proof -
  have dev: "mDevice (fst (Fingerprint_init cfg h ms)) = None"
    using openModules_all_fail [OF assms] by (simp add: mDevice_Fingerprint_init)
  have att: "attempted (snd (Fingerprint_init cfg h ms)) = ms"
    using openModules_all_fail [OF assms] by (simp add: attempted_Fingerprint_init)
  have cs: "createSession (fst (Fingerprint_init cfg h ms)) sensor_id userId cb =
           (fst (Fingerprint_init cfg h ms), Inl NoValidDevice)"
    using dev Fingerprint_init_fresh [of cfg h ms]
    by (simp add: createSession_def Session_make_def)
  show ?thesis using dev att cs Fingerprint_init_logs_no_module [OF dev] by blast
qed

text \<open>The same on the platform without any module, with the table \<^verbatim>\<open>kModules\<close>.\<close>

theorem createSession_without_device_witness:
  "map (registered empty_hal) kModules = replicate 7 None \<and>
   mDevice deviceless_coordinator = None \<and>
   attempted (snd (Fingerprint_ctor None empty_hal)) = kModules \<and>
   createSession deviceless_coordinator 0 10 client =
     (deviceless_coordinator, Inl NoValidDevice)"
proof -
  have a: "\<forall>c\<in>set kModules. registered empty_hal c = None"
    by (simp add: registered_def opened_def resolved_def empty_hal_def)
  have m: "map (registered empty_hal) kModules = replicate 7 None"
    by (simp add: kModules_def registered_def opened_def resolved_def empty_hal_def
        numeral_eq_Suc)
  show ?thesis
    using m createSession_without_device [OF a, of None 0 10 client]
    by (simp add: deviceless_coordinator_def Fingerprint_ctor_def)
qed

subsection \<open>The single open session\<close>

text \<open>
  Claim C1. If the coordinator holds a session that is not closed, \<^verbatim>\<open>createSession\<close>
  ends in the failed \<^verbatim>\<open>CHECK\<close> and leaves the object, the session included, as it was.
  If it holds no session, or one that reports itself closed, the call proceeds to
  create the session: on a device it stores the new session, which is open, and
  returns it with the ok status; without a device the creation of the session fails
  and the object is as it was.
\<close>

theorem createSession_refuses_second_session:
  "(\<forall>s. mSession this = Some s \<and> \<not> isClosed s \<longrightarrow>
        createSession this sensor_id userId cb =
          (this, Inl (CheckFailed ''Open session already exists!''))) \<and>
   (mSession this = None \<or> (\<exists>s. mSession this = Some s \<and> isClosed s) \<longrightarrow>
      (\<forall>d. mDevice this = Some d \<longrightarrow>
         (let s' = \<lparr>sDevice = d, sUdfpsHandler = mUdfpsHandler this, sUserId = userId,
                     sCb = cb, sLockoutTracker = mLockoutTracker this, sClosed = False,
                     sDeathLink = Some (asBinder cb), sDelivered = []\<rparr>
          in createSession this sensor_id userId cb =
               (this\<lparr>mSession := Some s'\<rparr>, Inr (Status_ok, s')) \<and> \<not> isClosed s')) \<and>
      (mDevice this = None \<longrightarrow>
         createSession this sensor_id userId cb = (this, Inl NoValidDevice)))"
  by (auto simp: createSession_def Let_def isClosed_def linkToDeath_def Session_make_def)

text \<open>The concrete coordinators, evaluated.\<close>

lemma idle_coordinator_eq:
  "idle_coordinator =
     \<lparr>mSession = None, mLockoutTracker = LockoutTracker 0, mSensorType = UNKNOWN,
      mMaxEnrollmentsPerUser = 7, mSupportsGestures = False, mDevice = Some goodix_device,
      mUdfpsHandlerFactory = None, mUdfpsHandler = None\<rparr>"
  by (simp add: idle_coordinator_def Fingerprint_ctor_def Fingerprint_init_def kModules_def
      openHal_def goodix_hal_def goodix_device_def deaf_device_def
      MAX_ENROLLMENTS_PER_USER_def Let_def)

lemma stubborn_coordinator_eq:
  "stubborn_coordinator =
     \<lparr>mSession = None, mLockoutTracker = LockoutTracker 0, mSensorType = UNKNOWN,
      mMaxEnrollmentsPerUser = 7, mSupportsGestures = False, mDevice = Some stubborn_device,
      mUdfpsHandlerFactory = None, mUdfpsHandler = None\<rparr>"
  by (simp add: stubborn_coordinator_def Fingerprint_ctor_def Fingerprint_init_def kModules_def
      openHal_def stubborn_hal_def stubborn_device_def MAX_ENROLLMENTS_PER_USER_def Let_def)

lemma deviceless_coordinator_eq:
  "deviceless_coordinator =
     \<lparr>mSession = None, mLockoutTracker = LockoutTracker 0, mSensorType = UNKNOWN,
      mMaxEnrollmentsPerUser = 7, mSupportsGestures = False, mDevice = None,
      mUdfpsHandlerFactory = None, mUdfpsHandler = None\<rparr>"
  by (simp add: deviceless_coordinator_def Fingerprint_ctor_def Fingerprint_init_def
      kModules_def openHal_def empty_hal_def MAX_ENROLLMENTS_PER_USER_def Let_def)

lemma handler_only_coordinator_eq:
  "handler_only_coordinator =
     \<lparr>mSession = None, mLockoutTracker = LockoutTracker 0,
      mSensorType = UNDER_DISPLAY_OPTICAL, mMaxEnrollmentsPerUser = 7,
      mSupportsGestures = False, mDevice = None,
      mUdfpsHandlerFactory = Some handler_factory, mUdfpsHandler = Some 5\<rparr>"
  by (simp add: handler_only_coordinator_def Fingerprint_ctor_def Fingerprint_init_def
      kModules_def openHal_def handler_only_hal_def handler_factory_def udfps_setup_def
      full_config_def MAX_ENROLLMENTS_PER_USER_def Let_def)

text \<open>
  Two calls in a row on a fresh coordinator: the first yields \<open>first_session\<close>, the
  second ends in the failed check with the object unchanged; once the session is
  closed, a further call proceeds. On the coordinator without a device the guard is
  passed and the creation of the session fails.
\<close>

theorem createSession_refuses_second_session_witness:
  "mSession idle_coordinator = None \<and> mDevice idle_coordinator = Some goodix_device \<and>
   createSession idle_coordinator 0 10 client =
     (busy_coordinator, Inr (Status_ok, first_session)) \<and>
   mSession busy_coordinator = Some first_session \<and> \<not> isClosed first_session \<and>
   createSession busy_coordinator 0 11 other_client =
     (busy_coordinator, Inl (CheckFailed ''Open session already exists!'')) \<and>
   mSession closed_coordinator = Some (Session_close first_session) \<and>
   isClosed (Session_close first_session) \<and>
   snd (createSession closed_coordinator 0 11 other_client) =
     Inr (Status_ok,
          \<lparr>sDevice = goodix_device, sUdfpsHandler = None, sUserId = 11, sCb = other_client,
           sLockoutTracker = LockoutTracker 0, sClosed = False, sDeathLink = Some 8,
           sDelivered = []\<rparr>) \<and>
   mSession deviceless_coordinator = None \<and> mDevice deviceless_coordinator = None \<and>
   createSession deviceless_coordinator 0 10 client =
     (deviceless_coordinator, Inl NoValidDevice)"
proof -
  have a: "mSession idle_coordinator = None" "mDevice idle_coordinator = Some goodix_device"
    by (simp_all add: idle_coordinator_eq)
  have b: "mSession busy_coordinator = Some first_session \<and> \<not> isClosed first_session"
    "mDevice busy_coordinator = Some goodix_device"
    by (simp_all add: busy_coordinator_def first_session_def isClosed_def idle_coordinator_eq)
  have c: "mSession closed_coordinator = Some (Session_close first_session) \<and>
           isClosed (Session_close first_session)"
    "mDevice closed_coordinator = Some goodix_device"
    by (simp_all add: closed_coordinator_def isClosed_def Session_close_def idle_coordinator_eq)
  have d: "mSession deviceless_coordinator = None" "mDevice deviceless_coordinator = None"
    by (simp_all add: deviceless_coordinator_eq)
  show ?thesis
    using a b c d
      createSession_refuses_second_session [of idle_coordinator 0 10 client]
      createSession_refuses_second_session [of busy_coordinator 0 11 other_client]
      createSession_refuses_second_session [of closed_coordinator 0 11 other_client]
      createSession_refuses_second_session [of deviceless_coordinator 0 10 client]
    by (simp add: Let_def busy_coordinator_def closed_coordinator_def first_session_def
        idle_coordinator_eq client_def other_client_def)
qed

subsection \<open>Routing of hardware events\<close>




subsection \<open>The sensor descriptor\<close>

text \<open>
  Claim C5. For every build configuration and every coordinator, whatever its device,
  \<^verbatim>\<open>getSensorProps\<close> writes exactly one descriptor; its component list has exactly
  two entries, the hardware one and then the software one, and its sensor id is
  \<^verbatim>\<open>SENSOR_ID\<close>, which is 0.
\<close>

theorem getSensorProps_single_descriptor:
  "case getSensorProps cfg init this of
     (this', status, out, t) \<Rightarrow>
       \<exists>d hw sw.
         out = [d] \<and> componentInfo (commonProps d) = [hw, sw] \<and>
         componentId hw = HW_COMPONENT_ID \<and> hardwareVersion hw = HW_VERSION \<and>
         softwareVersion hw = [] \<and>
         componentId sw = SW_COMPONENT_ID \<and> hardwareVersion sw = [] \<and>
         softwareVersion sw = SW_VERSION \<and>
         sensorId (commonProps d) = SENSOR_ID \<and> SENSOR_ID = 0"
  by (simp add: getSensorProps_def Let_def SENSOR_ID_def)

text \<open>A macro value that fits \<^verbatim>\<open>int32_t\<close> is the value the code tests and stores.\<close>

lemma to_int32_in_range:
  "- (2 ^ 31) \<le> v \<Longrightarrow> v < 2 ^ 31 \<Longrightarrow> sint (to_int32 v) = v"
  by (simp add: to_int32_def sint_sbintrunc' signed_take_bit_int_eq_self)

text \<open>
  Claim C6, as amended. The descriptor always carries exactly one location entry. It
  holds the configured x, y and radius, as the 32-bit integers the code keeps them in,
  when all three of those are non-negative, and then no failure is logged; otherwise
  (also when the build is not an under-display one) it is the default-constructed
  location and the failure is logged. The status is ok in every case.
\<close>

theorem getSensorProps_location_entry:
  "case getSensorProps cfg init this of
     (this', status, out, t) \<Rightarrow>
       status = Status_ok \<and>
       (\<exists>d loc.
          out = [d] \<and> sensorLocations d = [loc] \<and>
          (case cfg of
             None \<Rightarrow>
               loc = init \<and>
               ALOGE ''Failed to get sensor location: %d, %d, %d''
                 [ArgInt (- 1), ArgInt (- 1), ArgInt (- 1)] \<in> set t
           | Some u \<Rightarrow>
               if 0 \<le> sint (to_int32 (UDFPS_LOCATION_X u)) \<and>
                  0 \<le> sint (to_int32 (UDFPS_LOCATION_Y u)) \<and>
                  0 \<le> sint (to_int32 (UDFPS_RADIUS u))
               then loc = init\<lparr>sensorLocationX := to_int32 (UDFPS_LOCATION_X u),
                               sensorLocationY := to_int32 (UDFPS_LOCATION_Y u),
                               sensorRadius := to_int32 (UDFPS_RADIUS u)\<rparr> \<and>
                    t = [ALOGI ''Sensor type: %s, location: %s''
                           [ArgSensorType (mSensorType this), ArgLocation loc]]
               else loc = init \<and>
                    ALOGE ''Failed to get sensor location: %d, %d, %d''
                      [ArgInt (sint (to_int32 (UDFPS_LOCATION_X u))),
                       ArgInt (sint (to_int32 (UDFPS_LOCATION_Y u))),
                       ArgInt (sint (to_int32 (UDFPS_RADIUS u)))] \<in> set t))"
  by (simp add: getSensorProps_def Let_def split: option.splits)

text \<open>
  Three builds, each with the coordinator its own constructor makes: a complete
  configuration, one whose radius is \<open>- 1\<close>, and one whose x is \<open>2 ^ 31\<close>, which the
  conversion to \<^verbatim>\<open>int32_t\<close> turns negative.
\<close>

theorem getSensorProps_location_entry_witness:
  "(case getSensorProps full_config zero_location full_coordinator of
      (this', status, out, t) \<Rightarrow>
        status = Status_ok \<and>
        map sensorLocations out =
          [[\<lparr>sensorLocationX = 540, sensorLocationY = 1800, sensorRadius = 90, display = []\<rparr>]]) \<and>
   (case getSensorProps no_radius_config zero_location no_radius_coordinator of
      (this', status, out, t) \<Rightarrow>
        status = Status_ok \<and> map sensorLocations out = [[zero_location]] \<and>
        ALOGE ''Failed to get sensor location: %d, %d, %d''
          [ArgInt 540, ArgInt 1800, ArgInt (- 1)] \<in> set t) \<and>
   (case getSensorProps wide_config zero_location wide_coordinator of
      (this', status, out, t) \<Rightarrow>
        status = Status_ok \<and> map sensorLocations out = [[zero_location]] \<and>
        ALOGE ''Failed to get sensor location: %d, %d, %d''
          [ArgInt (- 2147483648), ArgInt 1800, ArgInt 90] \<in> set t)"
  using getSensorProps_location_entry
      [where cfg = full_config and init = zero_location and this = full_coordinator]
    getSensorProps_location_entry
      [where cfg = no_radius_config and init = zero_location and this = no_radius_coordinator]
    getSensorProps_location_entry
      [where cfg = wide_config and init = zero_location and this = wide_coordinator]
  by (auto simp: full_config_def no_radius_config_def wide_config_def zero_location_def
      to_int32_def split: prod.splits)

text \<open>
  In the build whose radius is \<open>- 1\<close> the location is not absent from the descriptor of
  that build's coordinator: its location list holds one entry, the default-constructed
  one.
\<close>

theorem getSensorProps_location_counterexample:
  "no_radius_config =
     Some \<lparr>UDFPS_LOCATION_X = 540, UDFPS_LOCATION_Y = 1800, UDFPS_RADIUS = - 1\<rparr> \<and>
   mSensorType no_radius_coordinator = UNDER_DISPLAY_OPTICAL \<and>
   (case getSensorProps no_radius_config zero_location no_radius_coordinator of
      (this', status, out, t) \<Rightarrow> map sensorLocations out = [[zero_location]])"
  by (simp add: getSensorProps_def Let_def no_radius_config_def to_int32_def
      no_radius_coordinator_def Fingerprint_ctor_def Fingerprint_init_def udfps_setup_def
      goodix_hal_def split: prod.splits)

subsection \<open>Teardown\<close>

lemma destroy_Some:
  "objects w p = Some this \<Longrightarrow>
   destroy p w = Some (w\<lparr>objects := (objects w)(p := None)\<rparr>, snd (Fingerprint_dtor this))"
  by (simp add: destroy_def split: prod.splits)

lemma Fingerprint_dtor_no_device:
  "mDevice this = None \<Longrightarrow>
   snd (Fingerprint_dtor this) =
     ALOGV ''~Fingerprint()'' [] #
     (case mUdfpsHandler this of
        None \<Rightarrow> []
      | Some handler \<Rightarrow> [Call_factory_destroy (mUdfpsHandlerFactory this) handler]) @
     [ALOGE ''No valid device'' []]"
  by (simp add: Fingerprint_dtor_def)

lemma Fingerprint_dtor_device:
  "mDevice this = Some d \<Longrightarrow>
   closed_devices (snd (Fingerprint_dtor this)) = [d] \<and>
   (if close_status d = 0 then last (snd (Fingerprint_dtor this)) = Call_close d
    else last (snd (Fingerprint_dtor this)) =
           ALOGE ''Can't close fingerprint module, error: %d'' [ArgInt (close_status d)])"
  by (auto simp: Fingerprint_dtor_def closed_devices_def Let_def split: option.splits)

text \<open>
  Claim C7, as amended. Destroying a coordinator always returns normally and leaves
  the process without that coordinator and its handle, whatever the device's close
  answered. With a null device the destructor calls nothing on the backend: it logs
  that there is no valid device and returns, after destroying the display handler
  when the coordinator has one. Otherwise it calls the device's close exactly once; a
  zero result ends the destructor, and a nonzero result is logged as a failure with
  the result.
\<close>

theorem destructor_closes_once:
  "\<forall>this. objects w p = Some this \<longrightarrow>
     (\<exists>t. destroy p w = Some (w\<lparr>objects := (objects w)(p := None)\<rparr>, t) \<and>
        (mDevice this = None \<longrightarrow>
           t = ALOGV ''~Fingerprint()'' [] #
               (case mUdfpsHandler this of
                  None \<Rightarrow> []
                | Some handler \<Rightarrow>
                    [Call_factory_destroy (mUdfpsHandlerFactory this) handler]) @
               [ALOGE ''No valid device'' []]) \<and>
        (\<forall>d. mDevice this = Some d \<longrightarrow>
           closed_devices t = [d] \<and>
           (if close_status d = 0 then last t = Call_close d
            else last t =
                   ALOGE ''Can't close fingerprint module, error: %d''
                     [ArgInt (close_status d)])))"
  using destroy_Some [of w p] Fingerprint_dtor_no_device Fingerprint_dtor_device
  by blast

text \<open>
  Four processes with one coordinator at address 1: without a device, with a handler
  and no device, with a device that closes, with a device that answers \<open>- 22\<close>. In all
  of them the process is left as \<open>stale_world\<close>.
\<close>

theorem destructor_closes_once_witness:
  "objects (world_with deviceless_coordinator) 1 = Some deviceless_coordinator \<and>
   destroy 1 (world_with deviceless_coordinator) =
     Some (stale_world, [ALOGV ''~Fingerprint()'' [], ALOGE ''No valid device'' []]) \<and>
   objects (world_with idle_coordinator) 1 = Some idle_coordinator \<and>
   destroy 1 (world_with idle_coordinator) =
     Some (stale_world, [ALOGV ''~Fingerprint()'' [], Call_close goodix_device]) \<and>
   close_status goodix_device = 0 \<and>
   objects (world_with stubborn_coordinator) 1 = Some stubborn_coordinator \<and>
   destroy 1 (world_with stubborn_coordinator) =
     Some (stale_world,
           [ALOGV ''~Fingerprint()'' [], Call_close stubborn_device,
            ALOGE ''Can't close fingerprint module, error: %d'' [ArgInt (- 22)]]) \<and>
   close_status stubborn_device = - 22"
proof -
  have o: "objects (world_with deviceless_coordinator) 1 = Some deviceless_coordinator"
    "objects (world_with idle_coordinator) 1 = Some idle_coordinator"
    "objects (world_with stubborn_coordinator) 1 = Some stubborn_coordinator"
    by (simp_all add: world_with_def)
  have d1: "destroy 1 (world_with deviceless_coordinator) =
     Some (stale_world, [ALOGV ''~Fingerprint()'' [], ALOGE ''No valid device'' []])"
    by (simp add: destroy_def world_with_def stale_world_def deviceless_coordinator_eq
        Fingerprint_dtor_def fun_eq_iff)
  have d2: "destroy 1 (world_with idle_coordinator) =
     Some (stale_world, [ALOGV ''~Fingerprint()'' [], Call_close goodix_device])"
    by (simp add: destroy_def world_with_def stale_world_def idle_coordinator_eq
        Fingerprint_dtor_def goodix_device_def fun_eq_iff)
  have d3: "destroy 1 (world_with stubborn_coordinator) =
     Some (stale_world,
           [ALOGV ''~Fingerprint()'' [], Call_close stubborn_device,
            ALOGE ''Can't close fingerprint module, error: %d'' [ArgInt (- 22)]])"
    by (simp add: destroy_def world_with_def stale_world_def stubborn_coordinator_eq
        Fingerprint_dtor_def stubborn_device_def fun_eq_iff)
  have c: "close_status goodix_device = 0" "close_status stubborn_device = - 22"
    by (simp_all add: goodix_device_def stubborn_device_def)
  show ?thesis
    using o d1 d2 d3 c
      destructor_closes_once [of "world_with deviceless_coordinator" 1]
      destructor_closes_once [of "world_with idle_coordinator" 1]
      destructor_closes_once [of "world_with stubborn_coordinator" 1]
    by simp
qed

text \<open>
  With a null device the destructor is not a no-op: the coordinator that an
  under-display build constructs on a platform without any module has a display
  handler and no device, and its destructor destroys the handler through the factory
  before it logs and returns.
\<close>

theorem destructor_null_device_counterexample:
  "mDevice handler_only_coordinator = None \<and>
   mUdfpsHandler handler_only_coordinator = Some 5 \<and>
   destroy 1 (world_with handler_only_coordinator) =
     Some (stale_world,
           [ALOGV ''~Fingerprint()'' [],
            Call_factory_destroy (Some handler_factory) 5,
            ALOGE ''No valid device'' []])"
  by (simp add: handler_only_coordinator_eq destroy_def world_with_def stale_world_def
      Fingerprint_dtor_def fun_eq_iff)

subsection \<open>The static instance pointer\<close>

lemma sInstance_construct_with: "sInstance (fst (construct_with cfg h ms p w)) = Some p"
  by (simp add: construct_with_def split: prod.splits)

lemma objects_construct_with:
  "objects (fst (construct_with cfg h ms p w)) p = Some (fst (Fingerprint_init cfg h ms))"
  by (simp add: construct_with_def split: prod.splits)

text \<open>
  Claim C8. Construction at \<open>p\<close> sets \<^verbatim>\<open>sInstance\<close> to \<open>p\<close>. Destroying the object at \<open>p\<close>
  leaves \<^verbatim>\<open>sInstance\<close> as it was while the object is gone. So after construction and
  destruction \<^verbatim>\<open>sInstance\<close> still holds \<open>p\<close>, where no object lives any more (a callback
  arriving then reads through the stale pointer), until the next construction, at
  \<open>q\<close>, sets it to \<open>q\<close>.
\<close>

theorem sInstance_outlives_coordinator:
  "sInstance (fst (construct cfg h p w)) = Some p \<and>
   (\<forall>w' t. destroy p w = Some (w', t) \<longrightarrow> sInstance w' = sInstance w \<and> objects w' p = None) \<and>
   (\<exists>w' t. destroy p (fst (construct cfg h p w)) = Some (w', t) \<and>
      sInstance w' = Some p \<and> objects w' p = None \<and>
      notify w' msg = Inl DanglingInstance \<and>
      sInstance (fst (construct cfg' h' q w')) = Some q)"
proof -
  have 1: "sInstance (fst (construct cfg h p w)) = Some p"
    by (simp add: construct_def sInstance_construct_with)
  have 2: "\<forall>w' t. destroy p w = Some (w', t) \<longrightarrow> sInstance w' = sInstance w \<and> objects w' p = None"
    by (auto simp: destroy_def split: option.splits prod.splits)
  let ?w1 = "fst (construct cfg h p w)"
  let ?w2 = "?w1\<lparr>objects := (objects ?w1)(p := None)\<rparr>"
  have "objects ?w1 p = Some (fst (Fingerprint_init cfg h kModules))"
    by (simp add: construct_def objects_construct_with)
  then have d: "destroy p ?w1 = Some (?w2, snd (Fingerprint_dtor (fst (Fingerprint_init cfg h kModules))))"
    by (rule destroy_Some)
  have "sInstance ?w2 = Some p \<and> objects ?w2 p = None \<and> notify ?w2 msg = Inl DanglingInstance \<and>
      sInstance (fst (construct cfg' h' q ?w2)) = Some q"
    using 1 by (simp add: notify_def Let_def construct_def sInstance_construct_with)
  with d have 3: "\<exists>w' t. destroy p ?w1 = Some (w', t) \<and>
      sInstance w' = Some p \<and> objects w' p = None \<and>
      notify w' msg = Inl DanglingInstance \<and>
      sInstance (fst (construct cfg' h' q w')) = Some q"
    by blast
  show ?thesis using 1 2 3 by blast
qed

text \<open>Destroying the coordinator at address 1 of a concrete process.\<close>

theorem sInstance_outlives_coordinator_witness:
  "destroy 1 (world_with stubborn_coordinator) =
     Some (\<lparr>sInstance = Some 1, objects = (\<lambda>p. None)\<rparr>,
           [ALOGV ''~Fingerprint()'' [], Call_close stubborn_device,
            ALOGE ''Can't close fingerprint module, error: %d'' [ArgInt (- 22)]]) \<and>
   sInstance (world_with stubborn_coordinator) = Some 1 \<and>
   sInstance \<lparr>sInstance = Some 1, objects = (\<lambda>p. None)\<rparr> = sInstance (world_with stubborn_coordinator)"
proof -
  have d: "destroy 1 (world_with stubborn_coordinator) =
     Some (\<lparr>sInstance = Some 1, objects = (\<lambda>p. None)\<rparr>,
           [ALOGV ''~Fingerprint()'' [], Call_close stubborn_device,
            ALOGE ''Can't close fingerprint module, error: %d'' [ArgInt (- 22)]])"
    by (simp add: destroy_def world_with_def stubborn_coordinator_eq Fingerprint_dtor_def
        stubborn_device_def fun_eq_iff)
  show ?thesis
    using d sInstance_outlives_coordinator
      [where p = 1 and w = "world_with stubborn_coordinator"]
    by (simp add: world_with_def)
qed

subsection \<open>Frame conditions\<close>

text \<open>
  Claim C9. \<^verbatim>\<open>getSensorProps\<close> leaves the coordinator as it was, in every field, and
  its status is ok.
\<close>

theorem getSensorProps_changes_nothing:
  "fst (getSensorProps cfg init this) = this \<and>
   fst (snd (getSensorProps cfg init this)) = Status_ok"
  by (simp add: getSensorProps_def Let_def)

text \<open>
  Claim C10. Two calls of \<^verbatim>\<open>createSession\<close> on the same coordinator that differ only in
  the sensor id have the same outcome: the same status or fault, the same session and
  the same resulting coordinator.
\<close>

theorem createSession_ignores_sensorId:
  "createSession this sensorId1 userId cb = createSession this sensorId2 userId cb"
  by (simp add: createSession_def)

end
